theory Spec2Isabelle
  imports Main "HOL-Library.Sublist" "HOL-Library.Multiset"
begin

section \<open>check50: option resolution, remote polling and the error hook\<close>

text \<open>
  A shallow embedding of \<^verbatim>\<open>src/check50/__main__.py\<close>. Python strings are
  \<^typ>\<open>string\<close> (ASCII), exceptions are values of the type \<open>error\<close> returned on
  the left of a sum, mutation of the argparse namespace and of the hook's attributes is
  explicit state passing, and output (log records, printed text, HTTP queries, sleeps) is
  returned as a list of events in the order the code produces them. The translation
  function \<^verbatim>\<open>_\<close> (gettext) is taken to be the identity, which it is without a
  message catalogue.
\<close>

subsection \<open>Python values\<close>

text \<open>
  A decoded JSON document (the value of \<^verbatim>\<open>res.json()\<close>). An object is the
  association list of the decoded \<^verbatim>\<open>dict\<close>; numbers are integers.
\<close>

datatype json =
    JNull
  | JBool bool
  | JNum int
  | JStr string
  | JArr "json list"
  | JObj "(string \<times> json) list"

datatype error =
    KeyError string
  | TypeError string
  | AttributeError string
  | InternalError string
  | RemoteCheckError json
  | JSONDecodeError

text \<open>\<^verbatim>\<open>class LogLevel(enum.IntEnum)\<close>, with the values of the logging module.\<close>

datatype LogLevel = DEBUG | INFO | WARNING | ERROR

fun level_value :: "LogLevel \<Rightarrow> int" where
  "level_value DEBUG = 10"
| "level_value INFO = 20"
| "level_value WARNING = 30"
| "level_value ERROR = 40"

fun level_name :: "LogLevel \<Rightarrow> string" where
  "level_name DEBUG = ''DEBUG''"
| "level_name INFO = ''INFO''"
| "level_name WARNING = ''WARNING''"
| "level_name ERROR = ''ERROR''"

definition LogLevel_members :: "(string \<times> LogLevel) list" where
  "LogLevel_members =
     [(''DEBUG'', DEBUG), (''INFO'', INFO), (''WARNING'', WARNING), (''ERROR'', ERROR)]"

text \<open>\<^verbatim>\<open>str.upper\<close> on ASCII text.\<close>

definition upper_char :: "char \<Rightarrow> char" where
  "upper_char c =
     (case map_of (zip ''abcdefghijklmnopqrstuvwxyz'' ''ABCDEFGHIJKLMNOPQRSTUVWXYZ'') c of
        Some u \<Rightarrow> u
      | None \<Rightarrow> c)"

definition upper :: "string \<Rightarrow> string" where
  "upper s = map upper_char s"

text \<open>\<^verbatim>\<open>sep.join(xs)\<close>.\<close>

fun join :: "string \<Rightarrow> string list \<Rightarrow> string" where
  "join sep [] = []"
| "join sep [x] = x"
| "join sep (x # y # ys) = x @ sep @ join sep (y # ys)"

subsection \<open>The argparse namespace\<close>

text \<open>
  \<^verbatim>\<open>args.log_level\<close> is a string when argparse hands the namespace over and a
  \<open>LogLevel\<close> member once \<^verbatim>\<open>validate_args\<close> has run; the field holds either.
  \<^verbatim>\<open>args.ansi_output\<close> is no option of the parser: the attribute does not exist
  (\<open>None\<close>) until \<^verbatim>\<open>validate_args\<close> assigns it.
\<close>

datatype log_level_value = LevelName string | Level LogLevel

record args =
  slug :: string
  dev :: bool
  offline :: bool
  local :: bool
  output' :: "string list"
  target :: "string list option"
  output_file :: "string option"
  verbose :: bool
  log_level :: log_level_value
  ansi_log :: bool
  no_download_checks :: bool
  no_install_dependencies :: bool
  ansi_output :: "bool option"

text \<open>What the parser yields when only the slug is given (the declared defaults).\<close>

definition default_args :: "string \<Rightarrow> args" where
  "default_args s =
     \<lparr> slug = s, dev = False, offline = False, local = False,
       output' = [''ansi'', ''html''], target = None, output_file = None,
       verbose = False, log_level = LevelName ''WARNING'', ansi_log = False,
       no_download_checks = False, no_install_dependencies = False,
       ansi_output = None \<rparr>"

subsection \<open>\<^verbatim>\<open>setup_logging\<close>\<close>

text \<open>
  The process-wide logging state the function acts on: the numeric level and the number of
  stream handlers (to standard error) of the loggers \<^verbatim>\<open>lib50\<close> and
  \<^verbatim>\<open>check50\<close>, and \<^verbatim>\<open>lib50.ProgressBar.DISABLED\<close>. For each of the two
  loggers the function sets the level and adds one more handler, on every call; then it
  sets \<^verbatim>\<open>lib50.ProgressBar.DISABLED = level < LogLevel.WARNING\<close>.
\<close>

record logging_state =
  lib50_level :: int
  lib50_handlers :: nat
  check50_level :: int
  check50_handlers :: nat
  progress_bar_disabled :: bool

text \<open>The state of a fresh process: levels not set (0), no handlers, the bar enabled.\<close>

definition fresh_logging :: logging_state where
  "fresh_logging =
     \<lparr> lib50_level = 0, lib50_handlers = 0, check50_level = 0, check50_handlers = 0,
       progress_bar_disabled = False \<rparr>"

definition setup_logging :: "LogLevel \<Rightarrow> logging_state \<Rightarrow> logging_state" where
  "setup_logging level lg =
     (let lg1 = lg\<lparr>lib50_level := level_value level\<rparr>;
          lg2 = lg1\<lparr>lib50_handlers := Suc (lib50_handlers lg1)\<rparr>;
          lg3 = lg2\<lparr>check50_level := level_value level\<rparr>;
          lg4 = lg3\<lparr>check50_handlers := Suc (check50_handlers lg3)\<rparr>
      in lg4\<lparr>progress_bar_disabled := (level_value level < level_value WARNING)\<rparr>)"

subsection \<open>\<^verbatim>\<open>validate_args\<close>\<close>

text \<open>
  The function mutates \<^verbatim>\<open>args\<close> in place and calls \<^verbatim>\<open>LOGGER.warning\<close>;
  the model takes the logging state the call finds and returns the namespace as it is
  left, the logging state as it is left, and the messages passed to
  \<^verbatim>\<open>LOGGER.warning\<close> in call order. Each block of the source is
  one definition, composed in source order by \<open>validate_args\<close>.
\<close>

record resolution =
  plan :: args
  logging :: logging_state
  warnings :: "string list"

text \<open>\<^verbatim>\<open>if args.dev: ...\<close>\<close>

definition apply_dev :: "args \<Rightarrow> args" where
  "apply_dev a =
     (if dev a then
        (let a1 = a\<lparr>offline := True\<rparr>;
             a2 = a1\<lparr>verbose := True\<rparr>
         in if ''ansi'' \<in> set (output' a2) then a2\<lparr>ansi_output := Some True\<rparr> else a2)
      else a)"

text \<open>\<^verbatim>\<open>if args.offline: ...\<close>\<close>

definition apply_offline :: "args \<Rightarrow> args" where
  "apply_offline a =
     (if offline a then
        a\<lparr>no_install_dependencies := True, no_download_checks := True, local := True\<rparr>
      else a)"

text \<open>\<^verbatim>\<open>LogLevel.__members__[args.log_level.upper()]\<close>: an enum member has no
  \<^verbatim>\<open>upper\<close>, an unknown name is a missing key.\<close>

definition resolve_log_level :: "log_level_value \<Rightarrow> error + LogLevel" where
  "resolve_log_level v =
     (case v of
        Level l \<Rightarrow> Inl (AttributeError ''upper'')
      | LevelName s \<Rightarrow>
          (case map_of LogLevel_members (upper s) of
             None \<Rightarrow> Inl (KeyError (upper s))
           | Some l \<Rightarrow> Inr l))"

text \<open>\<^verbatim>\<open>if not args.local: ...\<close>\<close>

definition useless_args_warning :: "args \<Rightarrow> string list" where
  "useless_args_warning a =
     (if \<not> local a then
        (let useless_args =
               (if no_download_checks a then [''--no-downloads-checks''] else []) @
               (if no_install_dependencies a then [''--no-install-dependencies''] else [])
         in if useless_args \<noteq> [] then
              [''You should always use --local when using: '' @ join '', '' useless_args]
            else [])
      else [])"

text \<open>The loop over \<^verbatim>\<open>args.output\<close>: the state is \<^verbatim>\<open>seen_output\<close> and the
  warnings logged so far.\<close>

definition duplicate_message :: "string \<Rightarrow> string" where
  "duplicate_message out = ''Duplicate output format specified: '' @ out"

fun filter_duplicates :: "string list \<Rightarrow> string list \<Rightarrow> string list \<Rightarrow> string list \<times> string list" where
  "filter_duplicates [] seen_output logged = (seen_output, logged)"
| "filter_duplicates (out # rest) seen_output logged =
     (if out \<in> set seen_output then
        filter_duplicates rest seen_output (logged @ [duplicate_message out])
      else filter_duplicates rest (seen_output @ [out]) logged)"

text \<open>\<^verbatim>\<open>if "ansi" in args.output: ... elif args.ansi_log: ...\<close>\<close>

definition resolve_ansi_log :: "args \<Rightarrow> LogLevel \<Rightarrow> args \<times> string list" where
  "resolve_ansi_log a level =
     (if ''ansi'' \<in> set (output' a) then
        (if level_value level \<le> level_value INFO then (a\<lparr>ansi_log := True\<rparr>, []) else (a, []))
      else if ansi_log a then
        (a, [''--ansi-log has no effect when ansi is not among the output formats''])
      else (a, []))"

definition validate_args :: "logging_state \<Rightarrow> args \<Rightarrow> error + resolution" where
  "validate_args lg0 a =
     (let a1 = apply_dev a;
          a2 = apply_offline a1
      in case resolve_log_level (log_level a2) of
           Inl e \<Rightarrow> Inl e
         | Inr level \<Rightarrow>
             (let a3 = a2\<lparr>log_level := Level level\<rparr>;
                  lg = setup_logging level lg0;
                  w1 = useless_args_warning a3;
                  (seen_output, w2) = filter_duplicates (output' a3) [] [];
                  a4 = a3\<lparr>output' := seen_output\<rparr>;
                  (a5, w3) = resolve_ansi_log a4 level
              in Inr \<lparr> plan = a5, logging = lg, warnings = w1 @ w2 @ w3 \<rparr>))"

subsection \<open>Reading decoded JSON the way Python reads it\<close>

text \<open>\<^verbatim>\<open>v[key]\<close> with a string key: only a \<^verbatim>\<open>dict\<close> can be indexed so.\<close>

definition getitem :: "json \<Rightarrow> string \<Rightarrow> error + json" where
  "getitem v key =
     (case v of
        JObj kvs \<Rightarrow> (case map_of kvs key of None \<Rightarrow> Inl (KeyError key) | Some x \<Rightarrow> Inr x)
      | JArr xs \<Rightarrow> Inl (TypeError ''list indices must be integers or slices, not str'')
      | JStr s \<Rightarrow> Inl (TypeError ''string indices must be integers'')
      | _ \<Rightarrow> Inl (TypeError ''object is not subscriptable''))"

text \<open>Truth value of a decoded document (\<^verbatim>\<open>not v\<close> is its negation).\<close>

definition truthy :: "json \<Rightarrow> bool" where
  "truthy v =
     (case v of
        JNull \<Rightarrow> False
      | JBool b \<Rightarrow> b
      | JNum n \<Rightarrow> n \<noteq> 0
      | JStr s \<Rightarrow> s \<noteq> []
      | JArr xs \<Rightarrow> xs \<noteq> []
      | JObj kvs \<Rightarrow> kvs \<noteq> [])"

text \<open>\<^verbatim>\<open>key in v\<close> with a string key: a key of a dict, a substring of a string, an
  element of a list; anything else is not iterable.\<close>

definition contains :: "json \<Rightarrow> string \<Rightarrow> error + bool" where
  "contains v key =
     (case v of
        JObj kvs \<Rightarrow> Inr (key \<in> fst ` set kvs)
      | JStr s \<Rightarrow> Inr (sublist key s)
      | JArr xs \<Rightarrow> Inr (JStr key \<in> set xs)
      | _ \<Rightarrow> Inl (TypeError ''argument is not iterable''))"

subsection \<open>\<^verbatim>\<open>await_results\<close>\<close>

text \<open>
  The results endpoint is the environment: \<open>env i\<close> is the response to the query number
  \<open>i\<close> (from 0), as \<^verbatim>\<open>requests.get\<close> returns it, with its status code and
  what \<^verbatim>\<open>res.json()\<close> makes of its body: the decoded document, or \<open>None\<close> when
  the body is not JSON and the call raises. The function returns its result (or the
  exception it raises) and the
  trace of queries and sleeps it performed. \<^verbatim>\<open>pings\<close> is a Python integer
  (\<^verbatim>\<open>range(pings)\<close> is empty when it is not positive); \<^verbatim>\<open>sleep\<close> is a
  duration (\<^verbatim>\<open>time.sleep\<close> takes no negative one).
\<close>

record response =
  status_code :: int
  json_body :: "json option"

datatype poll_event = Get string string | Sleep nat

definition timeout_message :: "string \<Rightarrow> string" where
  "timeout_message commit_hash =
     ''check50 is taking longer than normal!\<newline>See https://submit.cs50.io/check50/''
       @ commit_hash @ '' for more detail''"

text \<open>
  The \<^verbatim>\<open>for _i in range(pings): ... else: raise\<close> loop; the third argument
  is the index of the next query and the last the number of iterations left. It yields
  the last \<^verbatim>\<open>results\<close> when it leaves by \<^verbatim>\<open>break\<close>. The body is
  decoded first, before the status is looked at.
\<close>

fun poll :: "(nat \<Rightarrow> response) \<Rightarrow> string \<Rightarrow> string \<Rightarrow> nat \<Rightarrow> nat \<Rightarrow> nat
               \<Rightarrow> (error + json) \<times> poll_event list" where
  "poll env commit_hash slg sleep i 0 =
     (Inl (InternalError (timeout_message commit_hash)), [])"
| "poll env commit_hash slg sleep i (Suc n) =
     (let res = env i
      in case json_body res of
           None \<Rightarrow> (Inl JSONDecodeError, [Get commit_hash slg])
         | Some results \<Rightarrow>
             if status_code res \<notin> set [404, 200] then
               (Inl (RemoteCheckError results), [Get commit_hash slg])
             else
               (case (if status_code res = 200 then
                        (case getitem results ''received_at'' of
                           Inl e \<Rightarrow> Inl e
                         | Inr received_at \<Rightarrow> Inr (received_at \<noteq> JNull))
                      else Inr False) of
                  Inl e \<Rightarrow> (Inl e, [Get commit_hash slg])
                | Inr True \<Rightarrow> (Inr results, [Get commit_hash slg])
                | Inr False \<Rightarrow>
                    (let (r, evs) = poll env commit_hash slg sleep (Suc i) n
                     in (r, Get commit_hash slg # Sleep sleep # evs))))"

text \<open>The code after the loop, on the \<^verbatim>\<open>results\<close> the loop left.\<close>

definition extract_results :: "json \<Rightarrow> error + (json \<times> json)" where
  "extract_results results =
     (case getitem results ''check50'' of
        Inl e \<Rightarrow> Inl e
      | Inr check50 \<Rightarrow>
          if \<not> truthy check50 then Inl (RemoteCheckError results)
          else
            (case contains check50 ''error'' of
               Inl e \<Rightarrow> Inl e
             | Inr True \<Rightarrow> Inl (RemoteCheckError check50)
             | Inr False \<Rightarrow>
                 (case getitem results ''tag_hash'' of
                    Inl e \<Rightarrow> Inl e
                  | Inr tag_hash \<Rightarrow>
                 (case getitem check50 ''slug'' of
                    Inl e \<Rightarrow> Inl e
                  | Inr s \<Rightarrow>
                 (case getitem check50 ''results'' of
                    Inl e \<Rightarrow> Inl e
                  | Inr r \<Rightarrow>
                 (case getitem check50 ''version'' of
                    Inl e \<Rightarrow> Inl e
                  | Inr v \<Rightarrow>
                      Inr (tag_hash,
                           JObj [(''slug'', s), (''results'', r), (''version'', v)])))))))"

definition await_results :: "(nat \<Rightarrow> response) \<Rightarrow> string \<Rightarrow> string \<Rightarrow> int \<Rightarrow> nat
                               \<Rightarrow> (error + (json \<times> json)) \<times> poll_event list" where
  "await_results env commit_hash slg pings sleep =
     (case poll env commit_hash slg sleep 0 (nat pings) of
        (Inl e, evs) \<Rightarrow> (Inl e, evs)
      | (Inr results, evs) \<Rightarrow> (extract_results results, evs))"

subsection \<open>\<^verbatim>\<open>raise_invalid_slug\<close>\<close>

text \<open>
  \<open>local_slugs\<close> is what \<^verbatim>\<open>lib50.get_local_slugs("check50", similar_to=slug)\<close>
  returns. The function always raises; the model returns the exception.
\<close>

definition raise_invalid_slug :: "string list \<Rightarrow> string \<Rightarrow> bool \<Rightarrow> error" where
  "raise_invalid_slug local_slugs slg offl =
     (let msg = ''Could not find checks for '' @ slg @ ''.'';
          similar_slugs = take 3 local_slugs;
          msg = (if similar_slugs \<noteq> [] then
                   (let msg = msg @ '' Did you mean:'';
                        msg = fold (\<lambda>similar_slug m. m @ ''\<newline>    '' @ similar_slug)
                                similar_slugs msg
                    in msg @ ''\<newline>Do refer back to the problem specification if unsure.'')
                 else msg);
          msg = (if offl then
                   msg @ ''\<newline>If you are confident the slug is correct and you have an internet connection,''
                       @ '' try running without --offline.''
                 else msg)
      in InternalError msg)"

subsection \<open>\<^verbatim>\<open>excepthook\<close>\<close>

text \<open>
  The hook reads its own attributes \<^verbatim>\<open>verbose\<close>, \<^verbatim>\<open>outputs\<close>,
  \<^verbatim>\<open>output_file\<close> and \<^verbatim>\<open>slug\<close>. At import the module sets
  \<^verbatim>\<open>verbose\<close>, \<^verbatim>\<open>output\<close> (in the singular) and \<^verbatim>\<open>output_file\<close>;
  \<^verbatim>\<open>outputs\<close> and \<^verbatim>\<open>slug\<close> do not exist (\<open>None\<close>) until
  \<^verbatim>\<open>main\<close> has parsed and validated the arguments and sets the four attributes the
  hook reads. \<^verbatim>\<open>outputs\<close> is a list object that the hook mutates.
\<close>

record hook =
  hook_verbose :: bool
  hook_output :: string
  hook_outputs :: "string list option"
  hook_output_file :: "string option"
  hook_slug :: "string option"

definition hook_at_import :: hook where
  "hook_at_import =
     \<lparr> hook_verbose = True, hook_output = ''ansi'', hook_outputs = None,
       hook_output_file = None, hook_slug = None \<rparr>"


text \<open>
  The raised exception as the hook inspects it: the name of its class, the outcome of each
  \<^verbatim>\<open>issubclass\<close> test, whether \<^verbatim>\<open>exc.args\<close> is non-empty, \<^verbatim>\<open>str(exc)\<close>,
  \<^verbatim>\<open>exc.filename\<close>, \<^verbatim>\<open>exc.payload\<close> when the attribute exists, and the
  formatted traceback.
\<close>

record raised =
  cls_name :: string
  is_internal_Error :: bool
  is_lib50_Error :: bool
  is_FileNotFoundError :: bool
  is_KeyboardInterrupt :: bool
  is_Exception :: bool
  exc_has_args :: bool
  exc_str :: string
  exc_filename :: string
  exc_payload :: "json option"
  exc_traceback :: "string list"

datatype stream = Stdout | Stderr

text \<open>
  What the hook writes: the JSON document dumped to the output file (or to standard output
  when there is none), a line printed in red by \<^verbatim>\<open>termcolor.cprint\<close>, the traceback
  printed by \<^verbatim>\<open>traceback.print_exception\<close>, and the printed payload.
\<close>

datatype hook_event =
    JsonDump "string option" json
  | CPrint string stream
  | PrintException
  | PrintPayload json

text \<open>
  How the hook ends: \<open>Exit n\<close> is \<^verbatim>\<open>sys.exit(n)\<close>, \<open>Returned\<close> is the
  \<^verbatim>\<open>return\<close> that hands the exception back to the interpreter without exiting,
  and \<open>Raised e\<close> is an exception raised by the hook itself (reading an attribute that
  does not exist).
\<close>

datatype hook_outcome = Exit int | Returned | Raised error


definition error_document :: "string \<Rightarrow> string \<Rightarrow> raised \<Rightarrow> json" where
  "error_document version slg exc =
     JObj [(''slug'', JStr slg),
           (''error'',
              JObj [(''type'', JStr (cls_name exc)),
                    (''value'', JStr (exc_str exc)),
                    (''traceback'', JArr (map JStr (exc_traceback exc))),
                    (''data'', (case exc_payload exc of Some p \<Rightarrow> p | None \<Rightarrow> JObj []))]),
           (''version'', JStr version)]"

text \<open>The \<^verbatim>\<open>if/elif\<close> chain of the ansi and html channels; \<open>None\<close> is its
  \<^verbatim>\<open>return\<close>.\<close>

definition class_message :: "raised \<Rightarrow> hook_event option" where
  "class_message exc =
     (if (is_internal_Error exc \<or> is_lib50_Error exc) \<and> exc_has_args exc then
        Some (CPrint (exc_str exc) Stderr)
      else if is_FileNotFoundError exc then
        Some (CPrint (exc_filename exc @ '' not found'') Stderr)
      else if is_KeyboardInterrupt exc then
        Some (CPrint ''check cancelled'' Stdout)
      else if \<not> is_Exception exc then None
      else Some (CPrint ''Sorry, something's wrong! Let sysadmins@cs50.harvard.edu know!'' Stderr))"

text \<open>\<^verbatim>\<open>open(excepthook.output_file, "w") if excepthook.output_file else
  nullcontext(sys.stdout)\<close>: no file and the empty name both mean standard output
  (\<open>None\<close>).\<close>

definition ctxmanager :: "hook \<Rightarrow> string option" where
  "ctxmanager h =
     (case hook_output_file h of
        None \<Rightarrow> None
      | Some f \<Rightarrow> if f = [] then None else Some f)"

definition verbose_events :: "hook \<Rightarrow> raised \<Rightarrow> hook_event list" where
  "verbose_events h exc =
     (if hook_verbose h then
        PrintException # (case exc_payload exc of Some p \<Rightarrow> [PrintPayload p] | None \<Rightarrow> [])
      else [])"

text \<open>
  \<^verbatim>\<open>for output in excepthook.outputs: outputs.remove(output) ...\<close>, where
  \<^verbatim>\<open>outputs\<close> is the same list object. A Python list iterator keeps an index
  \<open>i\<close>: each round it stops when \<open>i\<close> has reached the current length of the list,
  and otherwise yields the element at \<open>i\<close> and increments \<open>i\<close>.
  \<^verbatim>\<open>remove\<close> deletes the first element equal to its argument. The loop's state
  is the index, the list and the events so far; the json branch reads
  \<^verbatim>\<open>excepthook.slug\<close>.
\<close>

function excepthook_loop :: "string \<Rightarrow> raised \<Rightarrow> hook \<Rightarrow> nat \<Rightarrow> string list
                               \<Rightarrow> hook_event list
                               \<Rightarrow> string list \<times> hook_event list \<times> hook_outcome" where
  "excepthook_loop version exc h i outputs evs =
     (if i < length outputs then
        (let out = outputs ! i;
             outputs' = remove1 out outputs
         in if out = ''json'' then
              (case hook_slug h of
                 None \<Rightarrow> (outputs', evs, Raised (AttributeError ''slug''))
               | Some slg \<Rightarrow>
                   excepthook_loop version exc h (Suc i) outputs'
                     (evs @ [JsonDump (ctxmanager h) (error_document version slg exc)]))
            else if out = ''ansi'' \<or> out = ''html'' then
              (case class_message exc of
                 None \<Rightarrow> (outputs', evs, Returned)
               | Some m \<Rightarrow>
                   excepthook_loop version exc h (Suc i) outputs'
                     (evs @ [m] @ verbose_events h exc))
            else excepthook_loop version exc h (Suc i) outputs' evs)
      else (outputs, evs, Exit 1))"
  by pat_completeness auto
termination
  by (relation "measure (\<lambda>(version, exc, h, i, outputs, evs). length outputs - i)")
     (auto simp: length_remove1)

declare excepthook_loop.simps [simp del]

text \<open>\<^verbatim>\<open>outputs = excepthook.outputs\<close> raises when the attribute does not exist.\<close>

definition excepthook :: "string \<Rightarrow> hook \<Rightarrow> raised \<Rightarrow> hook \<times> hook_event list \<times> hook_outcome" where
  "excepthook version h exc =
     (case hook_outputs h of
        None \<Rightarrow> (h, [], Raised (AttributeError ''outputs''))
      | Some outputs \<Rightarrow>
          (case excepthook_loop version exc h 0 outputs [] of
             (outputs', evs, how) \<Rightarrow> (h\<lparr>hook_outputs := Some outputs'\<rparr>, evs, how)))"

section \<open>Notions of the specification\<close>

text \<open>
  The list of distinct values of a list in the order of their first occurrence, and the
  occurrences that repeat an earlier one (or a value of \<open>S\<close>): position \<open>i\<close> of
  \<open>xs\<close> is a repetition when \<open>xs ! i\<close> is among the \<open>i\<close> elements before it.
\<close>

fun first_occurrences :: "'a list \<Rightarrow> 'a list" where
  "first_occurrences [] = []"
| "first_occurrences (x # xs) = x # first_occurrences (filter (\<lambda>y. y \<noteq> x) xs)"

definition repeated_from :: "'a set \<Rightarrow> 'a list \<Rightarrow> 'a list" where
  "repeated_from S xs =
     map (\<lambda>i. xs ! i) (filter (\<lambda>i. xs ! i \<in> S \<union> set (take i xs)) [0..<length xs])"

definition duplicate_occurrences :: "'a list \<Rightarrow> 'a list" where
  "duplicate_occurrences xs = repeated_from {} xs"

text \<open>The namespace \<open>validate_args\<close> leaves when the log level resolves to \<open>level\<close>.\<close>

definition resolved_plan :: "args \<Rightarrow> LogLevel \<Rightarrow> args" where
  "resolved_plan a level =
     fst (resolve_ansi_log
            ((apply_offline (apply_dev a))\<lparr>log_level := Level level,
                                            output' := first_occurrences (output' a)\<rparr>) level)"

text \<open>
  A response is not ready when its body is JSON and its status is 404, or 200 with a null
  \<^verbatim>\<open>received_at\<close>; it is ready when its body is JSON, its status is 200 and
  \<^verbatim>\<open>received_at\<close> is present and not null. \<open>attempts k\<close> is the trace of \<open>k\<close>
  attempts that were not ready, and \<open>queries\<close> counts the queries of a trace.
\<close>

definition not_ready :: "response \<Rightarrow> bool" where
  "not_ready res \<longleftrightarrow>
     (case json_body res of
        None \<Rightarrow> False
      | Some results \<Rightarrow>
          status_code res = 404
          \<or> (status_code res = 200 \<and> getitem results ''received_at'' = Inr JNull))"

definition ready :: "response \<Rightarrow> bool" where
  "ready res \<longleftrightarrow>
     (case json_body res of
        None \<Rightarrow> False
      | Some results \<Rightarrow>
          status_code res = 200
          \<and> (case getitem results ''received_at'' of
               Inl e \<Rightarrow> False
             | Inr received_at \<Rightarrow> received_at \<noteq> JNull))"

definition attempts :: "string \<Rightarrow> string \<Rightarrow> nat \<Rightarrow> nat \<Rightarrow> poll_event list" where
  "attempts commit_hash slg sleep k = concat (replicate k [Get commit_hash slg, Sleep sleep])"

definition queries :: "poll_event list \<Rightarrow> nat" where
  "queries evs = length (filter (\<lambda>e. case e of Get c s \<Rightarrow> True | Sleep d \<Rightarrow> False) evs)"

text \<open>
  The parts of the invalid-slug message: the base sentence, the suggestion list for given
  suggestions, and the hint added when running offline.
\<close>

definition base_message :: "string \<Rightarrow> string" where
  "base_message slg = ''Could not find checks for '' @ slg @ ''.''"

definition suggestion_list :: "string list \<Rightarrow> string" where
  "suggestion_list suggestions =
     '' Did you mean:'' @ concat (map (\<lambda>s. ''\<newline>    '' @ s) suggestions)
       @ ''\<newline>Do refer back to the problem specification if unsure.''"

definition offline_hint :: "bool \<Rightarrow> string" where
  "offline_hint offl =
     (if offl then
        ''\<newline>If you are confident the slug is correct and you have an internet connection, try running without --offline.''
      else [])"


section \<open>Properties of \<open>validate_args\<close>\<close>

subsection \<open>First occurrences and repetitions\<close>

lemma set_first_occurrences: "set (first_occurrences xs) = set xs"
  by (induction xs rule: first_occurrences.induct) auto

lemma distinct_first_occurrences: "distinct (first_occurrences xs)"
  by (induction xs rule: first_occurrences.induct) (auto simp: set_first_occurrences)

lemma subseq_first_occurrences: "subseq (first_occurrences xs) xs"
proof (induction xs rule: first_occurrences.induct)
  case 1
  then show ?case by simp
next
  case (2 x xs)
  have "subseq (filter (\<lambda>y. y \<noteq> x) xs) xs" by simp
  with 2 have "subseq (first_occurrences (filter (\<lambda>y. y \<noteq> x) xs)) xs"
    using subseq_order.order_trans by blast
  then show ?case by simp
qed

lemma first_occurrences_distinct: "distinct xs \<Longrightarrow> first_occurrences xs = xs"
proof (induction xs)
  case Nil
  then show ?case by simp
next
  case (Cons x xs)
  then have "filter (\<lambda>y. y \<noteq> x) xs = xs" by (auto simp: filter_id_conv)
  with Cons show ?case by simp
qed

lemma first_occurrences_idem: "first_occurrences (first_occurrences xs) = first_occurrences xs"
  by (simp add: first_occurrences_distinct distinct_first_occurrences)

lemma repeated_from_Nil: "repeated_from S [] = []"
  by (simp add: repeated_from_def)

lemma repeated_from_Cons:
  "repeated_from S (y # ys) = (if y \<in> S then [y] else []) @ repeated_from (insert y S) ys"
proof -
  have upt: "[0..<length (y # ys)] = 0 # map Suc [0..<length ys]"
    by (simp add: upt_conv_Cons map_Suc_upt del: upt_Suc)
  show ?thesis
    unfolding repeated_from_def upt
    by (simp add: filter_map comp_def disj_ac)
qed

lemma filter_not_in_snoc:
  "filter (\<lambda>y. y \<noteq> x) (filter (\<lambda>y. y \<notin> set seen) xs) = filter (\<lambda>y. y \<notin> set (seen @ [x])) xs"
  by (induction xs) auto

text \<open>Every occurrence is either kept or reported as a repetition.\<close>

lemma mset_kept_and_repeated:
  "mset (first_occurrences (filter (\<lambda>y. y \<notin> S) xs)) + mset (repeated_from S xs) = mset xs"
proof (induction xs arbitrary: S)
  case Nil
  then show ?case by (simp add: repeated_from_Nil)
next
  case (Cons x xs)
  show ?case
  proof (cases "x \<in> S")
    case True
    then have "insert x S = S" by auto
    with True Cons [of S] show ?thesis by (simp add: repeated_from_Cons)
  next
    case False
    have "filter (\<lambda>y. y \<noteq> x) (filter (\<lambda>y. y \<notin> S) xs) = filter (\<lambda>y. y \<notin> insert x S) xs"
      by (induction xs) auto
    with False Cons [of "insert x S"] show ?thesis by (simp add: repeated_from_Cons)
  qed
qed

subsection \<open>The loop computes them\<close>

lemma filter_duplicates_spec:
  "filter_duplicates xs seen logged =
     (seen @ first_occurrences (filter (\<lambda>x. x \<notin> set seen) xs),
      logged @ map duplicate_message (repeated_from (set seen) xs))"
proof (induction xs arbitrary: seen logged)
  case Nil
  then show ?case by (simp add: repeated_from_Nil)
next
  case (Cons out rest)
  show ?case
  proof (cases "out \<in> set seen")
    case True
    then have "insert out (set seen) = set seen" by auto
    with True Cons show ?thesis by (simp add: repeated_from_Cons)
  next
    case False
    with Cons filter_not_in_snoc [of out seen rest] show ?thesis
      by (simp add: repeated_from_Cons)
  qed
qed

subsection \<open>The namespace after each block\<close>

lemma apply_dev_eq:
  "apply_dev a =
     a\<lparr>offline := dev a \<or> offline a, verbose := dev a \<or> verbose a,
       ansi_output := (if dev a \<and> ''ansi'' \<in> set (output' a) then Some True else ansi_output a)\<rparr>"
  by (cases a) (simp add: apply_dev_def Let_def)

lemma apply_offline_eq:
  "apply_offline a =
     a\<lparr>no_install_dependencies := offline a \<or> no_install_dependencies a,
       no_download_checks := offline a \<or> no_download_checks a,
       local := offline a \<or> local a\<rparr>"
  by (cases a) (simp add: apply_offline_def)

lemma resolve_ansi_log_eq:
  "fst (resolve_ansi_log a l) =
     a\<lparr>ansi_log := (''ansi'' \<in> set (output' a) \<and> level_value l \<le> level_value INFO) \<or> ansi_log a\<rparr>"
  by (cases a) (simp add: resolve_ansi_log_def)

lemma resolve_level_name: "resolve_log_level (LevelName (level_name l)) = Inr l"
  by (cases l) (simp_all add: resolve_log_level_def LogLevel_members_def upper_def upper_char_def)

lemma validate_args_unfold:
  "validate_args lg a =
     (case resolve_log_level (log_level a) of
        Inl e \<Rightarrow> Inl e
      | Inr level \<Rightarrow>
          Inr \<lparr> plan = resolved_plan a level,
                logging = setup_logging level lg,
                warnings =
                  useless_args_warning (apply_offline (apply_dev a))
                  @ map duplicate_message (duplicate_occurrences (output' a))
                  @ snd (resolve_ansi_log
                           ((apply_offline (apply_dev a))\<lparr>log_level := Level level,
                              output' := first_occurrences (output' a)\<rparr>) level) \<rparr>)"
  by (simp add: validate_args_def Let_def filter_duplicates_spec duplicate_occurrences_def
        resolved_plan_def useless_args_warning_def apply_offline_eq apply_dev_eq
        split: sum.splits prod.splits)

lemma resolved_plan_log_level: "log_level (resolved_plan a l) = Level l"
  by (simp add: resolved_plan_def resolve_ansi_log_eq)

lemma resolved_plan_output: "output' (resolved_plan a l) = first_occurrences (output' a)"
  by (simp add: resolved_plan_def resolve_ansi_log_eq)

lemma resolved_plan_again:
  "resolved_plan ((resolved_plan a l)\<lparr>log_level := LevelName (level_name l)\<rparr>) l
     = resolved_plan a l"
  by (cases a)
     (auto simp: resolved_plan_def resolve_ansi_log_eq apply_offline_eq apply_dev_eq
        first_occurrences_idem set_first_occurrences)

text \<open>The resolution of the parser's defaults.\<close>

lemma validate_default:
  "validate_args lg (default_args s) =
     Inr \<lparr> plan = (default_args s)\<lparr>log_level := Level WARNING\<rparr>,
           logging = setup_logging WARNING lg,
           warnings = [] \<rparr>"
  by (simp add: validate_args_def default_args_def resolve_log_level_def apply_dev_def
        apply_offline_def LogLevel_members_def upper_def upper_char_def Let_def
        setup_logging_def useless_args_warning_def resolve_ansi_log_def)

text \<open>The resolved level is the member the given name denotes, whatever the other options.\<close>

lemma resolved_level_is_named_level:
  assumes "validate_args lg a = Inr r" "log_level a = LevelName s"
  shows "map_of LogLevel_members (upper s) = Some l \<longleftrightarrow> log_level (plan r) = Level l"
  using assms
  by (auto simp: validate_args_unfold resolved_plan_log_level resolve_log_level_def
        split: sum.splits option.splits)

subsection \<open>Claims\<close>

text \<open>
  C1. Developer mode with the log level left at its default: the claim and the source's
  own comment and help text say the level becomes INFO. The code never touches the log
  level in its developer-mode block; it sets \<^verbatim>\<open>args.ansi_output\<close> instead, and the
  resolved level is the parsed default, WARNING.
\<close>

theorem C1_dev_default_level_is_WARNING:
  "validate_args lg ((default_args ''hello'')\<lparr>dev := True\<rparr>) =
     Inr \<lparr> plan = (default_args ''hello'')\<lparr>dev := True, offline := True, local := True,
                     verbose := True, log_level := Level WARNING, no_download_checks := True,
                     no_install_dependencies := True, ansi_output := Some True\<rparr>,
           logging = setup_logging WARNING lg,
           warnings = [] \<rparr>"
  by (simp add: validate_args_def default_args_def resolve_log_level_def apply_dev_def
        apply_offline_def LogLevel_members_def upper_def upper_char_def Let_def
        setup_logging_def useless_args_warning_def resolve_ansi_log_def)

text \<open>
  C8. Whenever \<open>validate_args\<close> returns, the developer flag is the one given, developer
  mode implies offline and verbose, and offline implies local, no-download-checks and
  no-install-dependencies. (It returns exactly when the log level names a member, see
  \<open>validate_args_unfold\<close>.)
\<close>

theorem C8_implication_invariants:
  assumes "validate_args lg a = Inr r"
  shows "dev (plan r) = dev a
       \<and> (dev (plan r) \<longrightarrow> offline (plan r) \<and> verbose (plan r))
       \<and> (offline (plan r) \<longrightarrow>
            local (plan r) \<and> no_download_checks (plan r) \<and> no_install_dependencies (plan r))"
  using assms
  by (auto simp: validate_args_unfold resolved_plan_def resolve_ansi_log_eq apply_offline_eq
        apply_dev_eq split: sum.splits)

theorem C8_implication_invariants_witness:
  "\<exists>r. validate_args fresh_logging ((default_args ''hello'')\<lparr>dev := True\<rparr>) = Inr r
       \<and> dev (plan r) \<and> offline (plan r) \<and> verbose (plan r) \<and> local (plan r)
       \<and> no_download_checks (plan r) \<and> no_install_dependencies (plan r)"
proof -
  have "\<exists>r. validate_args fresh_logging ((default_args ''hello'')\<lparr>dev := True\<rparr>) = Inr r"
    by (simp add: validate_args_unfold default_args_def resolve_log_level_def
          LogLevel_members_def upper_def upper_char_def)
  then obtain r where r: "validate_args fresh_logging ((default_args ''hello'')\<lparr>dev := True\<rparr>) = Inr r" ..
  from C8_implication_invariants [OF r] have "dev (plan r)" by (simp add: default_args_def)
  with C8_implication_invariants [OF r] r show ?thesis by blast
qed

text \<open>
  C3. The resolver is not idempotent as stated: it replaces the log level's name by the
  enum member, and a member has no \<^verbatim>\<open>upper\<close>, so the resolver raises
  \<^verbatim>\<open>AttributeError\<close> on the plan it has just produced. Here on the defaults, in
  a fresh process.
\<close>

theorem C3_resolver_rejects_resolved_plan:
  "validate_args fresh_logging (default_args ''hello'') =
     Inr \<lparr> plan = (default_args ''hello'')\<lparr>log_level := Level WARNING\<rparr>,
           logging = setup_logging WARNING fresh_logging,
           warnings = [] \<rparr>
   \<and> validate_args (setup_logging WARNING fresh_logging)
         ((default_args ''hello'')\<lparr>log_level := Level WARNING\<rparr>)
       = Inl (AttributeError ''upper'')"
  by (simp add: validate_default) (simp add: validate_args_unfold resolve_log_level_def)

text \<open>
  C3, amended. For every namespace the resolver accepts, resolving the resulting plan again
  raises \<^verbatim>\<open>AttributeError\<close>, in whatever logging state; once the log level is
  written back as the name of its member, resolving again succeeds and yields the same
  plan.
\<close>

theorem C3_resolve_again:
  assumes "validate_args lg a = Inr r"
  shows "validate_args lg' (plan r) = Inl (AttributeError ''upper'')
       \<and> (\<exists>l r'. log_level (plan r) = Level l
              \<and> validate_args lg' ((plan r)\<lparr>log_level := LevelName (level_name l)\<rparr>) = Inr r'
              \<and> plan r' = plan r)"
proof -
  from assms obtain l where l: "resolve_log_level (log_level a) = Inr l"
    and p: "plan r = resolved_plan a l"
    by (auto simp: validate_args_unfold split: sum.splits)
  have lv: "log_level (plan r) = Level l" by (simp add: p resolved_plan_log_level)
  have 1: "validate_args lg' (plan r) = Inl (AttributeError ''upper'')"
    by (simp add: validate_args_unfold lv resolve_log_level_def)
  have "\<exists>r'. validate_args lg' ((plan r)\<lparr>log_level := LevelName (level_name l)\<rparr>) = Inr r'
           \<and> plan r' = plan r"
    by (simp add: validate_args_unfold resolve_level_name p resolved_plan_again)
  with 1 lv show ?thesis by blast
qed

text \<open>
  The witness is a namespace on which every rule fires: developer mode, a repeated output
  channel, and a log level given in lower case.
\<close>

theorem C3_resolve_again_witness:
  "\<exists>r. validate_args fresh_logging
          ((default_args ''hello'')\<lparr>dev := True, output' := [''html'', ''ansi'', ''html''],
                                     log_level := LevelName ''debug''\<rparr>) = Inr r
     \<and> offline (plan r) \<and> local (plan r) \<and> ansi_log (plan r)
     \<and> output' (plan r) = [''html'', ''ansi'']
     \<and> log_level (plan r) = Level DEBUG
     \<and> validate_args (logging r) (plan r) = Inl (AttributeError ''upper'')
     \<and> (\<exists>r'. validate_args (logging r) ((plan r)\<lparr>log_level := LevelName ''DEBUG''\<rparr>) = Inr r'
            \<and> plan r' = plan r)"
proof -
  let ?a = "(default_args ''hello'')\<lparr>dev := True, output' := [''html'', ''ansi'', ''html''],
                                     log_level := LevelName ''debug''\<rparr>"
  have lv: "resolve_log_level (log_level ?a) = Inr DEBUG"
    by (simp add: default_args_def resolve_log_level_def LogLevel_members_def upper_def
          upper_char_def)
  then obtain r where r: "validate_args fresh_logging ?a = Inr r"
    and p: "plan r = resolved_plan ?a DEBUG"
    by (simp add: validate_args_unfold)
  have f: "offline (plan r) \<and> local (plan r) \<and> ansi_log (plan r)
         \<and> output' (plan r) = [''html'', ''ansi''] \<and> log_level (plan r) = Level DEBUG"
    by (simp add: p resolved_plan_def resolve_ansi_log_eq apply_offline_eq apply_dev_eq
          default_args_def)
  from C3_resolve_again [OF r, of "logging r"] f
  have "validate_args (logging r) (plan r) = Inl (AttributeError ''upper'')
      \<and> (\<exists>r'. validate_args (logging r) ((plan r)\<lparr>log_level := LevelName ''DEBUG''\<rparr>) = Inr r'
            \<and> plan r' = plan r)"
    by auto
  with r f show ?thesis by blast
qed

lemma prefix_duplicate_message:
  "prefix ''Duplicate output format specified: '' (duplicate_message x)"
  by (simp add: duplicate_message_def)

lemma no_duplicate_in_useless:
  "filter (prefix ''Duplicate output format specified: '') (useless_args_warning a) = []"
  by (simp add: useless_args_warning_def Let_def)

lemma no_duplicate_in_ansi_log:
  "filter (prefix ''Duplicate output format specified: '') (snd (resolve_ansi_log a l)) = []"
  by (simp add: resolve_ansi_log_def)

text \<open>
  C9. Duplicates never make the resolver fail (it raises only through the log level), and
  when it returns, the output list is the list of first occurrences of the given one: it
  has no duplicates, the same values, and their order in the input. The messages passed to
  \<^verbatim>\<open>LOGGER.warning\<close> about duplicates are one per repeated occurrence, in
  order; every given occurrence is either kept or reported.
\<close>

theorem C9_output_first_occurrences:
  "(\<forall>e. validate_args lg a = Inl e \<longrightarrow> resolve_log_level (log_level a) = Inl e)
   \<and> (\<forall>r. validate_args lg a = Inr r \<longrightarrow>
          output' (plan r) = first_occurrences (output' a)
        \<and> distinct (output' (plan r))
        \<and> set (output' (plan r)) = set (output' a)
        \<and> subseq (output' (plan r)) (output' a)
        \<and> filter (prefix ''Duplicate output format specified: '') (warnings r)
            = map duplicate_message (duplicate_occurrences (output' a))
        \<and> mset (output' (plan r)) + mset (duplicate_occurrences (output' a))
            = mset (output' a))"
proof -
  have m: "mset (first_occurrences (output' a)) + mset (duplicate_occurrences (output' a))
             = mset (output' a)"
    using mset_kept_and_repeated [of "{}" "output' a"] by (simp add: duplicate_occurrences_def)
  have f: "filter (prefix ''Duplicate output format specified: '')
             (map duplicate_message xs) = map duplicate_message xs" for xs
    by (induction xs) (simp_all add: prefix_duplicate_message)
  show ?thesis
    by (auto simp: validate_args_unfold resolved_plan_output distinct_first_occurrences
          set_first_occurrences subseq_first_occurrences m f no_duplicate_in_useless
          no_duplicate_in_ansi_log split: sum.splits)
qed

theorem C9_output_first_occurrences_witness:
  "\<exists>r. validate_args fresh_logging
          ((default_args ''hello'')\<lparr>output' := [''html'', ''ansi'', ''html'']\<rparr>) = Inr r
     \<and> output' (plan r) = [''html'', ''ansi'']
     \<and> filter (prefix ''Duplicate output format specified: '') (warnings r)
         = [''Duplicate output format specified: html'']"
proof -
  let ?a = "(default_args ''hello'')\<lparr>output' := [''html'', ''ansi'', ''html'']\<rparr>"
  have "\<exists>r. validate_args fresh_logging ?a = Inr r"
    by (simp add: validate_args_unfold default_args_def resolve_log_level_def
          LogLevel_members_def upper_def upper_char_def)
  then obtain r where r: "validate_args fresh_logging ?a = Inr r" ..
  with C9_output_first_occurrences [of fresh_logging ?a] show ?thesis
    by (auto simp: duplicate_occurrences_def repeated_from_Cons repeated_from_Nil
          duplicate_message_def)
qed


section \<open>Properties of \<open>await_results\<close>\<close>

lemma queries_attempts: "queries (attempts c s d k) = k"
  by (induction k) (simp_all add: queries_def attempts_def)

lemma queries_Get: "queries [Get c s] = 1"
  by (simp add: queries_def)

lemma queries_append: "queries (xs @ ys) = queries xs + queries ys"
  by (simp add: queries_def)

lemma attempts_Suc: "attempts c s d (Suc k) = Get c s # Sleep d # attempts c s d k"
  by (simp add: attempts_def)

text \<open>What a failing lookup raises.\<close>

lemma getitem_error_kinds:
  "getitem v key = Inl e \<Longrightarrow> (\<exists>m. e = KeyError m) \<or> (\<exists>m. e = TypeError m)"
  by (auto simp: getitem_def split: json.splits option.splits)

lemma contains_error_kinds: "contains v key = Inl e \<Longrightarrow> \<exists>m. e = TypeError m"
  by (auto simp: contains_def split: json.splits)

lemma getitem_error:
  "getitem v key = Inl e \<Longrightarrow> e \<noteq> RemoteCheckError x \<and> e \<noteq> InternalError m"
  by (auto dest: getitem_error_kinds)

lemma contains_error:
  "contains v key = Inl e \<Longrightarrow> e \<noteq> RemoteCheckError x \<and> e \<noteq> InternalError m"
  by (auto dest: contains_error_kinds)


subsection \<open>One round of the loop\<close>

lemma poll_not_ready:
  "0 < n \<Longrightarrow> not_ready (env i) \<Longrightarrow>
     poll env c s d i n =
       (case poll env c s d (Suc i) (n - 1) of (r, evs) \<Rightarrow> (r, Get c s # Sleep d # evs))"
  by (cases n) (auto simp: not_ready_def Let_def split: option.splits)

lemma poll_ready:
  "0 < n \<Longrightarrow> ready (env i) \<Longrightarrow> json_body (env i) = Some b \<Longrightarrow>
     poll env c s d i n = (Inr b, [Get c s])"
  by (cases n) (auto simp: ready_def Let_def split: sum.splits)



lemma poll_undecodable:
  "0 < n \<Longrightarrow> json_body (env i) = None \<Longrightarrow>
     poll env c s d i n = (Inl JSONDecodeError, [Get c s])"
  by (cases n) (auto simp: Let_def)


subsection \<open>The whole loop\<close>

lemma poll_prefix:
  "(\<forall>j<k. not_ready (env (i + j))) \<Longrightarrow>
     poll env c s d i (k + n) =
       (case poll env c s d (i + k) n of (r, evs) \<Rightarrow> (r, attempts c s d k @ evs))"
proof (induction k arbitrary: i)
  case 0
  then show ?case by (simp add: attempts_def)
next
  case (Suc k)
  from Suc.prems have nr: "not_ready (env i)" by (metis add.right_neutral zero_less_Suc)
  from Suc.prems have "\<forall>j<k. not_ready (env (Suc i + j))"
    by (metis Suc_less_eq add_Suc_shift)
  from Suc.IH [OF this] poll_not_ready [of "Suc k + n" env i c s d] nr show ?case
    by (simp add: attempts_Suc del: poll.simps split: prod.splits)
qed

lemma poll_all_not_ready:
  assumes "\<forall>i<n. not_ready (env i)"
  shows "poll env c s d 0 n = (Inl (InternalError (timeout_message c)), attempts c s d n)"
  using poll_prefix [of n env 0 c s d 0] assms by simp

lemma poll_first_decisive:
  assumes "k < n" "\<forall>i<k. not_ready (env i)"
  shows "poll env c s d 0 n =
           (case poll env c s d k (n - k) of (r, evs) \<Rightarrow> (r, attempts c s d k @ evs))"
  using poll_prefix [of k env 0 c s d "n - k"] assms by simp


subsection \<open>The code after the loop\<close>


lemma extract_results_no_timeout: "extract_results b \<noteq> Inl (InternalError m)"
  by (auto simp: extract_results_def
        split: sum.splits bool.splits dest: getitem_error contains_error)

lemma extract_results_success:
  "extract_results b = Inr (tag_hash, p) \<longleftrightarrow>
     (\<exists>check50 sl rs v.
        getitem b ''check50'' = Inr check50 \<and> truthy check50
      \<and> contains check50 ''error'' = Inr False
      \<and> getitem b ''tag_hash'' = Inr tag_hash
      \<and> getitem check50 ''slug'' = Inr sl \<and> getitem check50 ''results'' = Inr rs
      \<and> getitem check50 ''version'' = Inr v
      \<and> p = JObj [(''slug'', sl), (''results'', rs), (''version'', v)])"
  by (auto simp: extract_results_def split: sum.splits bool.splits)


subsection \<open>The function at the first decisive attempt\<close>

lemma await_timeout:
  assumes "\<forall>i<nat pings. not_ready (env i)"
  shows "await_results env c s pings d =
           (Inl (InternalError (timeout_message c)), attempts c s d (nat pings))"
  using poll_all_not_ready [OF assms] by (simp add: await_results_def)


lemma await_ready:
  assumes "k < nat pings" "\<forall>i<k. not_ready (env i)" "ready (env k)"
      and "json_body (env k) = Some b"
  shows "await_results env c s pings d = (extract_results b, attempts c s d k @ [Get c s])"
proof -
  from assms(1) have "0 < nat pings - k" by simp
  with poll_ready [where n="nat pings - k" and env=env and i=k and c=c and s=s and d=d] assms
  have "poll env c s d k (nat pings - k) = (Inr b, [Get c s])"
    by simp
  with poll_first_decisive [OF assms(1,2), of c s d]
  show ?thesis by (simp add: await_results_def)
qed


lemma await_undecodable:
  assumes "k < nat pings" "\<forall>i<k. not_ready (env i)" "json_body (env k) = None"
  shows "await_results env c s pings d = (Inl JSONDecodeError, attempts c s d k @ [Get c s])"
proof -
  from assms(1) have "0 < nat pings - k" by simp
  with poll_undecodable [where n="nat pings - k" and env=env and i=k and c=c and s=s and d=d]
    assms
  have "poll env c s d k (nat pings - k) = (Inl JSONDecodeError, [Get c s])"
    by simp
  with poll_first_decisive [OF assms(1,2), of c s d]
  show ?thesis by (simp add: await_results_def)
qed

subsection \<open>Claims\<close>

text \<open>
  C5. A response with status 404 whose body is not JSON is not waited out:
  \<^verbatim>\<open>res.json()\<close> is called before the status is looked at and raises, at the first
  attempt, instead of the timeout after \<open>pings\<close> attempts.
\<close>

theorem C5_undecodable_404_ends_polling:
  "await_results (\<lambda>i. \<lparr>status_code = 404, json_body = None\<rparr>) ''abc'' ''hello'' 45 2
   = (Inl JSONDecodeError, [Get ''abc'' ''hello''])"
  using await_undecodable [of 0 45 "\<lambda>i. \<lparr>status_code = 404, json_body = None\<rparr>"
          "''abc''" "''hello''" 2]
  by (simp add: attempts_def)

text \<open>
  C5, amended. When each of the first \<open>pings\<close> responses has a JSON body and is not ready
  (status 404, or status 200 with a null \<^verbatim>\<open>received_at\<close>), the poller raises the
  timeout error after the trace of exactly \<open>pings\<close> queries, each followed by a sleep: no
  fewer and no more. (\<open>nat pings\<close> is \<open>pings\<close> for the non-negative counts the claim is
  about.)
\<close>

theorem C5_timeout_after_exactly_pings:
  assumes "\<forall>i<nat pings. not_ready (env i)"
  shows "await_results env c s pings d =
           (Inl (InternalError (timeout_message c)), attempts c s d (nat pings))
       \<and> queries (snd (await_results env c s pings d)) = nat pings"
  using await_timeout [OF assms] by (simp add: queries_attempts)

theorem C5_timeout_after_exactly_pings_witness:
  "await_results
     (\<lambda>i. if even i then \<lparr>status_code = 404, json_body = Some (JObj [])\<rparr>
           else \<lparr>status_code = 200, json_body = Some (JObj [(''received_at'', JNull)])\<rparr>)
     ''abc'' ''hello'' 45 2
   = (Inl (InternalError (timeout_message ''abc'')), attempts ''abc'' ''hello'' 2 45)
   \<and> queries (attempts ''abc'' ''hello'' 2 45) = 45"
  using C5_timeout_after_exactly_pings
          [of 45 "\<lambda>i. if even i then \<lparr>status_code = 404, json_body = Some (JObj [])\<rparr>
           else \<lparr>status_code = 200, json_body = Some (JObj [(''received_at'', JNull)])\<rparr>"
           "''abc''" "''hello''" 2]
  by (auto simp: not_ready_def getitem_def queries_attempts)

text \<open>
  C6. The first ready response does not always make the poller return successfully: here
  the first response is ready and its nested result carries an error, and the poller
  raises the remote-service error.
\<close>

theorem C6_ready_with_error_raises:
  "await_results
     (\<lambda>i. \<lparr>status_code = 200,
            json_body = Some (JObj [(''received_at'', JStr ''2020-01-01T00:00:00''),
                                    (''tag_hash'', JStr ''t4g''),
                                    (''check50'', JObj [(''error'', JStr ''timeout'')])])\<rparr>)
     ''abc'' ''hello'' 45 2
   = (Inl (RemoteCheckError (JObj [(''error'', JStr ''timeout'')])), [Get ''abc'' ''hello''])"
proof -
  let ?b = "JObj [(''received_at'', JStr ''2020-01-01T00:00:00''),
                  (''tag_hash'', JStr ''t4g''),
                  (''check50'', JObj [(''error'', JStr ''timeout'')])]"
  let ?env = "\<lambda>i::nat. \<lparr>status_code = 200, json_body = Some ?b\<rparr>"
  have r: "ready (?env 0)" by (simp add: ready_def getitem_def)
  have "await_results ?env ''abc'' ''hello'' 45 2
          = (extract_results ?b, attempts ''abc'' ''hello'' 2 0 @ [Get ''abc'' ''hello''])"
    by (rule await_ready [where k=0]) (simp_all add: r)
  then show ?thesis
    by (simp add: attempts_def extract_results_def getitem_def truthy_def contains_def)
qed

text \<open>
  C6, amended. When attempt \<open>k\<close> (counted from 0, within the \<open>pings\<close> allowed) is the
  first whose response has status 200 and a non-null \<^verbatim>\<open>received_at\<close>, the earlier
  ones being not ready, the poller makes exactly \<open>k + 1\<close> queries and none after it, does
  not time out, and ends with what the code after the loop makes of that response. It
  returns successfully exactly when that response's body has a \<^verbatim>\<open>tag_hash\<close> and a
  non-empty nested result without \<^verbatim>\<open>"error"\<close> that has slug, results and version;
  it then returns that tag hash and that payload. The witness is the scenario of 44
  responses with status 404 followed by such a response, with 45 pings.
\<close>

theorem C6_returns_on_first_ready:
  assumes "k < nat pings" "\<forall>i<k. not_ready (env i)" "ready (env k)"
      and "json_body (env k) = Some b"
  shows "await_results env c s pings d = (extract_results b, attempts c s d k @ [Get c s])
       \<and> queries (snd (await_results env c s pings d)) = Suc k
       \<and> fst (await_results env c s pings d) \<noteq> Inl (InternalError (timeout_message c))
       \<and> (\<forall>tag_hash p.
             fst (await_results env c s pings d) = Inr (tag_hash, p) \<longleftrightarrow>
               (\<exists>check50 sl rs v.
                  getitem b ''check50'' = Inr check50 \<and> truthy check50
                \<and> contains check50 ''error'' = Inr False
                \<and> getitem b ''tag_hash'' = Inr tag_hash
                \<and> getitem check50 ''slug'' = Inr sl \<and> getitem check50 ''results'' = Inr rs
                \<and> getitem check50 ''version'' = Inr v
                \<and> p = JObj [(''slug'', sl), (''results'', rs), (''version'', v)]))"
  using await_ready [OF assms, of c s d]
  by (simp add: queries_append queries_attempts queries_Get extract_results_no_timeout
        extract_results_success)

theorem C6_returns_on_first_ready_witness:
  "fst (await_results
     (\<lambda>i. if i < 44 then \<lparr>status_code = 404, json_body = Some (JObj [])\<rparr>
           else \<lparr>status_code = 200,
                  json_body = Some (JObj [(''received_at'', JStr ''2020-01-01T00:00:00''),
                                    (''tag_hash'', JStr ''t4g''),
                                    (''check50'', JObj [(''slug'', JStr ''hello''),
                                                        (''results'', JArr []),
                                                        (''version'', JStr ''3.0.0'')])])\<rparr>)
     ''abc'' ''hello'' 45 2)
   = Inr (JStr ''t4g'',
          JObj [(''slug'', JStr ''hello''), (''results'', JArr []), (''version'', JStr ''3.0.0'')])
   \<and> queries (snd (await_results
     (\<lambda>i. if i < 44 then \<lparr>status_code = 404, json_body = Some (JObj [])\<rparr>
           else \<lparr>status_code = 200,
                  json_body = Some (JObj [(''received_at'', JStr ''2020-01-01T00:00:00''),
                                    (''tag_hash'', JStr ''t4g''),
                                    (''check50'', JObj [(''slug'', JStr ''hello''),
                                                        (''results'', JArr []),
                                                        (''version'', JStr ''3.0.0'')])])\<rparr>)
     ''abc'' ''hello'' 45 2)) = 45"
proof -
  let ?b = "JObj [(''received_at'', JStr ''2020-01-01T00:00:00''),
                  (''tag_hash'', JStr ''t4g''),
                  (''check50'', JObj [(''slug'', JStr ''hello''),
                                      (''results'', JArr []),
                                      (''version'', JStr ''3.0.0'')])]"
  let ?env = "\<lambda>i::nat. if i < 44 then \<lparr>status_code = 404, json_body = Some (JObj [])\<rparr>
           else \<lparr>status_code = 200, json_body = Some ?b\<rparr>"
  have h1: "44 < nat 45" by simp
  have h2: "\<forall>i<44. not_ready (?env i)" by (simp add: not_ready_def)
  have h3: "ready (?env 44)" by (simp add: ready_def getitem_def)
  have h4: "json_body (?env 44) = Some ?b" by simp
  from C6_returns_on_first_ready [OF h1 h2 h3 h4, of "''abc''" "''hello''" 2]
  have a: "await_results ?env ''abc'' ''hello'' 45 2 =
             (extract_results ?b, attempts ''abc'' ''hello'' 2 44 @ [Get ''abc'' ''hello''])"
    and q: "queries (snd (await_results ?env ''abc'' ''hello'' 45 2)) = Suc 44"
    by blast+
  have "extract_results ?b =
          Inr (JStr ''t4g'',
          JObj [(''slug'', JStr ''hello''), (''results'', JArr []), (''version'', JStr ''3.0.0'')])"
    by (simp add: extract_results_def getitem_def truthy_def contains_def)
  with a q show ?thesis by simp
qed




section \<open>Properties of \<open>raise_invalid_slug\<close>\<close>

lemma fold_append_lines:
  "fold (\<lambda>x m. m @ f x) xs msg = msg @ concat (map f xs)"
  by (induction xs arbitrary: msg) simp_all

text \<open>
  C10. The message of the invalid-slug error is the base sentence, then the suggestion list
  of the first three similar slugs at most (each of them one of the search results, in
  their order), then the offline hint if asked for; when the search returns nothing, the
  message has no suggestion list: it is the base sentence and the hint alone.
\<close>

theorem C10_at_most_three_suggestions:
  "raise_invalid_slug local_slugs slg offl =
     InternalError
       (base_message slg
        @ (if local_slugs = [] then [] else suggestion_list (take 3 local_slugs))
        @ offline_hint offl)
   \<and> length (take 3 local_slugs) \<le> 3
   \<and> (\<forall>i<length (take 3 local_slugs). take 3 local_slugs ! i = local_slugs ! i)"
  by (auto simp: raise_invalid_slug_def base_message_def suggestion_list_def offline_hint_def
        fold_append_lines Let_def)

theorem C10_at_most_three_suggestions_witness:
  "raise_invalid_slug [''cs50/problems/2020/x/hello'', ''cs50/problems/2021/x/hello'',
                        ''cs50/problems/2022/x/hello'', ''cs50/problems/2023/x/hello'']
     ''cs50/problems/x/hello'' False
   = InternalError
       (base_message ''cs50/problems/x/hello''
        @ suggestion_list [''cs50/problems/2020/x/hello'', ''cs50/problems/2021/x/hello'',
                           ''cs50/problems/2022/x/hello''])
   \<and> raise_invalid_slug [] ''cs50/problems/x/hello'' False
       = InternalError ''Could not find checks for cs50/problems/x/hello.''"
  using C10_at_most_three_suggestions [of "[''cs50/problems/2020/x/hello'', ''cs50/problems/2021/x/hello'',
                        ''cs50/problems/2022/x/hello'', ''cs50/problems/2023/x/hello'']"
                    "''cs50/problems/x/hello''" False]
        C10_at_most_three_suggestions [of "[]" "''cs50/problems/x/hello''" False]
  by (simp add: offline_hint_def base_message_def)

section \<open>Properties of \<open>excepthook\<close>\<close>






text \<open>
  Before \<^verbatim>\<open>main\<close> has set the attributes (while the arguments are parsed and
  validated), the hook raises on its first line, whatever the failure.
\<close>

lemma hook_raises_before_main:
  "excepthook version hook_at_import exc
     = (hook_at_import, [], Raised (AttributeError ''outputs''))"
  by (simp add: excepthook_def hook_at_import_def)

subsection \<open>Claims\<close>




text \<open>
  C2. With the channels ansi and json and an uncaught check50 error (here the one
  \<^verbatim>\<open>main\<close> raises when the checks cannot be fetched), the hook removes
  \<^verbatim>\<open>"ansi"\<close> from the list it is iterating over, so the iterator's index 1 is
  past the end of the one-element list that is left: the loop ends and the json channel,
  still listed, never gets its error document.
\<close>

theorem C2_json_channel_skipped:
  "excepthook ''3.0.0''
     \<lparr>hook_verbose = False, hook_output = ''ansi'', hook_outputs = Some [''ansi'', ''json''],
      hook_output_file = None, hook_slug = Some ''hello''\<rparr>
     \<lparr>cls_name = ''Error'', is_internal_Error = True, is_lib50_Error = False,
      is_FileNotFoundError = False, is_KeyboardInterrupt = False, is_Exception = True,
      exc_has_args = True,
      exc_str = ''check50 could not retrieve checks from GitHub. Try running check50 again with --offline.'',
      exc_filename = [], exc_payload = None, exc_traceback = []\<rparr>
   = (\<lparr>hook_verbose = False, hook_output = ''ansi'', hook_outputs = Some [''json''],
       hook_output_file = None, hook_slug = Some ''hello''\<rparr>,
      [CPrint ''check50 could not retrieve checks from GitHub. Try running check50 again with --offline.''
         Stderr], Exit 1)"
  by (simp add: excepthook_def excepthook_loop.simps Let_def class_message_def
        verbose_events_def)

text \<open>Only a second call of the hook, on the list the first call left, reaches json.\<close>

lemma hook_reentered_services_json:
  "excepthook ''3.0.0''
     \<lparr>hook_verbose = False, hook_output = ''ansi'', hook_outputs = Some [''json''],
      hook_output_file = None, hook_slug = Some ''hello''\<rparr>
     \<lparr>cls_name = ''Error'', is_internal_Error = True, is_lib50_Error = False,
      is_FileNotFoundError = False, is_KeyboardInterrupt = False, is_Exception = True,
      exc_has_args = True,
      exc_str = ''check50 could not retrieve checks from GitHub. Try running check50 again with --offline.'',
      exc_filename = [], exc_payload = None, exc_traceback = []\<rparr>
   = (\<lparr>hook_verbose = False, hook_output = ''ansi'', hook_outputs = Some [],
       hook_output_file = None, hook_slug = Some ''hello''\<rparr>,
      [JsonDump None
         (JObj [(''slug'', JStr ''hello''),
                (''error'',
                   JObj [(''type'', JStr ''Error''),
                         (''value'',
                            JStr ''check50 could not retrieve checks from GitHub. Try running check50 again with --offline.''),
                         (''traceback'', JArr []),
                         (''data'', JObj [])]),
                (''version'', JStr ''3.0.0'')])],
      Exit 1)"
  by (simp add: excepthook_def excepthook_loop.simps Let_def error_document_def ctxmanager_def)

end
